theory Spec2Isabelle
  imports Complex_Main "HOL-Library.AList" "HOL-Library.Log_Nat"
begin

section \<open>Request limiter (src/request_limiter.py)\<close>

subsection \<open>Rendering of integers\<close>

text \<open>
  The f-strings of the limiter render its integer counters with Python's \<open>str\<close>:
  decimal digits, most significant first, with a leading minus sign for a negative value.
\<close>

definition digit_char :: "nat \<Rightarrow> char" where
  "digit_char d = ''0123456789'' ! d"

fun digits :: "nat \<Rightarrow> string" where
  "digits n = (if n < 10 then [digit_char n] else digits (n div 10) @ [digit_char (n mod 10)])"

declare digits.simps [simp del]

definition str_int :: "int \<Rightarrow> string" where
  "str_int i = (if i < 0 then CHR ''-'' # digits (nat (- i)) else digits (nat i))"

subsection \<open>The limiter's state and its environment\<close>

text \<open>
  \<open>psutil.virtual_memory()\<close> is the limiter's only input from outside. A call either
  raises or returns a sample, of which the limiter's decisions use \<open>percent\<close> alone; the
  outcome of one call is a value of \<open>error + real\<close>. Python floats are compared as the
  real numbers they denote.
\<close>

datatype error = MemoryReadError | KeyError

type_synonym vmem = "error + real"

text \<open>
  Python's two renderings of a float in the memory reason, \<open>{x:.1f}\<close> and \<open>{x}\<close>, are
  taken as parameters.
\<close>

record float_fmt =
  fmt_1f :: "real \<Rightarrow> string"
  fmt_str :: "real \<Rightarrow> string"

record request_limiter =
  max_concurrent :: int
  memory_threshold :: real
  active_requests :: int
  total_requests :: int
  rejected_requests :: int

definition RequestLimiter :: "int \<Rightarrow> real \<Rightarrow> request_limiter" where
  "RequestLimiter max_conc threshold =
     \<lparr>max_concurrent = max_conc, memory_threshold = threshold,
      active_requests = 0, total_requests = 0, rejected_requests = 0\<rparr>"

subsection \<open>can_accept_request, acquire, release\<close>

text \<open>
  \<open>can_accept_request\<close> writes nothing. It reads memory only after the concurrency check
  has passed, and has no handler around the read: a failure of the read leaves the
  function as an exception, here \<open>Inl\<close>.
\<close>

definition can_accept_request ::
  "float_fmt \<Rightarrow> request_limiter \<Rightarrow> vmem \<Rightarrow> error + (bool \<times> string option)" where
  "can_accept_request fmt self vm =
     (if active_requests self \<ge> max_concurrent self then
        Inr (False, Some (''Max concurrent requests reached ('' @ str_int (active_requests self)
                          @ ''/'' @ str_int (max_concurrent self) @ '')''))
      else
        (case vm of
           Inl e \<Rightarrow> Inl e
         | Inr pct \<Rightarrow>
             if pct \<ge> memory_threshold self then
               Inr (False, Some (''Memory threshold exceeded ('' @ fmt_1f fmt pct @ ''% > ''
                                 @ fmt_str fmt (memory_threshold self) @ ''%)''))
             else Inr (True, None)))"

text \<open>
  \<open>acquire\<close> and \<open>release\<close> update the counters first and read memory afterwards, for the
  log line only: when that read raises, the counters are already written.
\<close>

definition acquire :: "request_limiter \<Rightarrow> vmem \<Rightarrow> (error + unit) \<times> request_limiter" where
  "acquire self vm =
     (let self' = self\<lparr>active_requests := active_requests self + 1,
                       total_requests := total_requests self + 1\<rparr>
      in (case vm of Inl e \<Rightarrow> Inl e | Inr pct \<Rightarrow> Inr (), self'))"

definition release :: "request_limiter \<Rightarrow> vmem \<Rightarrow> (error + unit) \<times> request_limiter" where
  "release self vm =
     (let self' = self\<lparr>active_requests := max 0 (active_requests self - 1)\<rparr>
      in (case vm of Inl e \<Rightarrow> Inl e | Inr pct \<Rightarrow> Inr (), self'))"

text \<open>
  The admission of \<open>RequestLimiterMiddleware.dispatch\<close> for a limited path:
  \<open>can_accept_request\<close>, then either the rejection count or \<open>acquire\<close>. The two memory
  samples are those of the two calls.
\<close>

definition admit :: "float_fmt \<Rightarrow> request_limiter \<Rightarrow> vmem \<Rightarrow> vmem \<Rightarrow> request_limiter" where
  "admit fmt self vm1 vm2 =
     (case can_accept_request fmt self vm1 of
        Inl e \<Rightarrow> self
      | Inr (can_accept, reason) \<Rightarrow>
          if \<not> can_accept then self\<lparr>rejected_requests := rejected_requests self + 1\<rparr>
          else snd (acquire self vm2))"

text \<open>Sequences of calls on one limiter, each with the memory samples it meets.\<close>

datatype call = Acquire vmem | Release vmem | Admit vmem vmem

fun is_Acquire :: "call \<Rightarrow> bool" where
  "is_Acquire (Acquire vm) = True"
| "is_Acquire (Release vm) = False"
| "is_Acquire (Admit vm1 vm2) = False"

fun run_call :: "float_fmt \<Rightarrow> request_limiter \<Rightarrow> call \<Rightarrow> request_limiter" where
  "run_call fmt self (Acquire vm) = snd (acquire self vm)"
| "run_call fmt self (Release vm) = snd (release self vm)"
| "run_call fmt self (Admit vm1 vm2) = admit fmt self vm1 vm2"

fun run_calls :: "float_fmt \<Rightarrow> request_limiter \<Rightarrow> call list \<Rightarrow> request_limiter" where
  "run_calls fmt self [] = self"
| "run_calls fmt self (c # cs) = run_calls fmt (run_call fmt self c) cs"

text \<open>
  A rendering of floats for the examples: one decimal, truncated. It agrees with
  Python's on the non-negative values with one decimal that the examples use.
\<close>

definition tenths :: "real \<Rightarrow> string" where
  "tenths x = str_int (\<lfloor>x\<rfloor>) @ ''.'' @ digits (nat (\<lfloor>x * 10\<rfloor> mod 10))"

definition example_fmt :: float_fmt where
  "example_fmt = \<lparr>fmt_1f = tenths, fmt_str = tenths\<rparr>"

section \<open>Registry of CLI sessions (src/cli_session_manager.py)\<close>

subsection \<open>CLISession\<close>

text \<open>
  Times are \<open>datetime\<close> values, counted here in microseconds, the resolution of the type.
  An \<open>asyncio.Event\<close> is its flag; an \<open>asyncio.Task\<close> is whether it is done and whether
  its cancellation has been requested. The status is a Python string, and nothing
  restricts it to the four names of the comment.
\<close>

record task =
  task_done :: bool
  cancel_requested :: bool

record cli_session =
  cli_session_id :: string
  prompt :: string
  started_at :: int
  model :: "string option"
  status :: string
  cancellation_token :: "bool option"
  task :: "task option"

text \<open>
  The dataclass constructor with \<open>__post_init__\<close>: a missing token is created when a
  loop is running, and stays missing otherwise.
\<close>

definition CLISession ::
  "string \<Rightarrow> string \<Rightarrow> int \<Rightarrow> string option \<Rightarrow> bool option \<Rightarrow> task option \<Rightarrow> bool \<Rightarrow> cli_session"
  where
  "CLISession sid p now mdl token tsk running_loop =
     \<lparr>cli_session_id = sid, prompt = p, started_at = now, model = mdl, status = ''running'',
      cancellation_token =
        (case token of None \<Rightarrow> (if running_loop then Some False else None) | Some b \<Rightarrow> Some b),
      task = tsk\<rparr>"

definition cancel :: "cli_session \<Rightarrow> cli_session" where
  "cancel self =
     self\<lparr>cancellation_token :=
            (case cancellation_token self of None \<Rightarrow> None | Some b \<Rightarrow> Some True),
          status := ''cancelled''\<rparr>"

subsection \<open>CLISessionManager\<close>

text \<open>
  \<open>self.sessions\<close> is a dict: an association list in insertion order, whose keys are
  distinct. Assignment to a key is \<open>AList.update\<close>, which replaces in place or appends.
\<close>

type_synonym cli_session_manager = "(string \<times> cli_session) list"

text \<open>
  \<open>create_session\<close> draws its identifier from \<open>uuid.uuid4()\<close> and its start time from the
  clock; both are parameters, as are the success of \<open>asyncio.Event()\<close> and the presence
  of a running loop.
\<close>

definition create_session ::
  "cli_session_manager \<Rightarrow> string \<Rightarrow> int \<Rightarrow> bool \<Rightarrow> bool \<Rightarrow> string \<Rightarrow> string option \<Rightarrow> task option
   \<Rightarrow> cli_session \<times> cli_session_manager" where
  "create_session sessions new_id now event_ok running_loop p mdl tsk =
     (let cancellation_token = (if event_ok then Some False else None);
          session = CLISession new_id p now mdl cancellation_token tsk running_loop
      in (session, AList.update new_id session sessions))"

definition get_session :: "cli_session_manager \<Rightarrow> string \<Rightarrow> cli_session option" where
  "get_session sessions sid = map_of sessions sid"

definition cancel_session ::
  "cli_session_manager \<Rightarrow> string \<Rightarrow> bool \<times> cli_session_manager" where
  "cancel_session sessions sid =
     (case map_of sessions sid of
        None \<Rightarrow> (False, sessions)
      | Some session \<Rightarrow>
          if status session \<noteq> ''running'' then (False, sessions)
          else
            (let session1 = cancel session;
                 session2 =
                   (case task session1 of
                      None \<Rightarrow> session1
                    | Some t \<Rightarrow>
                        if \<not> task_done t
                        then session1\<lparr>task := Some (t\<lparr>cancel_requested := True\<rparr>)\<rparr>
                        else session1)
             in (True, AList.update sid session2 sessions)))"

definition complete_session ::
  "cli_session_manager \<Rightarrow> string \<Rightarrow> string \<Rightarrow> cli_session_manager" where
  "complete_session sessions sid new_status =
     (case map_of sessions sid of
        None \<Rightarrow> sessions
      | Some session \<Rightarrow> AList.update sid (session\<lparr>status := new_status\<rparr>) sessions)"

subsection \<open>Double-precision rounding\<close>

text \<open>
  A Python float is an IEEE 754 double. \<open>round_double\<close> rounds a real number to the
  nearest one with a significand of 53 bits, a tie going to the even significand. The
  exponent is not bounded here: the quotients below stay far inside the range of a
  double, a difference of two \<open>datetime\<close> values being less than \<open>2 ^ 59\<close> microseconds.
  For a positive \<open>x\<close>, \<open>double_exponent x\<close> is an exponent \<open>e\<close> that puts \<open>x / 2 ^ e\<close>
  between \<open>2 ^ 52\<close> and \<open>2 ^ 53\<close>.
\<close>

definition round_half_even :: "real \<Rightarrow> int" where
  "round_half_even x =
     (let f = \<lfloor>x\<rfloor>; r = x - of_int f
      in if r < 1 / 2 then f else if 1 / 2 < r then f + 1 else if even f then f else f + 1)"

definition double_exponent :: "real \<Rightarrow> int" where
  "double_exponent x = (if 1 \<le> x then bitlen \<lfloor>x\<rfloor> - 53 else - bitlen \<lfloor>1 / x\<rfloor> - 52)"

definition round_double_pos :: "real \<Rightarrow> real" where
  "round_double_pos x =
     of_int (round_half_even (x / 2 powi double_exponent x)) * 2 powi double_exponent x"

definition round_double :: "real \<Rightarrow> real" where
  "round_double x =
     (if x = 0 then 0 else if 0 < x then round_double_pos x else - round_double_pos (- x))"

subsection \<open>cleanup_old_sessions\<close>

text \<open>
  The age in hours is \<open>(now - started_at).total_seconds() / 3600\<close>: \<open>total_seconds\<close> is
  the number of microseconds divided by \<open>10 ** 6\<close>, correctly rounded to a float, and
  the division by 3600 rounds once more. The comparison of this float with the integer
  threshold is exact. The first loop collects the identifiers to remove, the second
  deletes them one by one; \<open>del\<close> on a missing key raises \<open>KeyError\<close>.
\<close>

definition age_hours :: "int \<Rightarrow> cli_session \<Rightarrow> real" where
  "age_hours now session =
     round_double (round_double (real_of_int (now - started_at session) / 1000000) / 3600)"

definition removable :: "int \<Rightarrow> int \<Rightarrow> cli_session \<Rightarrow> bool" where
  "removable now max_age_hours session =
     (status session \<in> set [''completed'', ''cancelled'', ''failed'']
      \<and> age_hours now session > real_of_int max_age_hours)"

fun collect_old :: "int \<Rightarrow> int \<Rightarrow> (string \<times> cli_session) list \<Rightarrow> string list" where
  "collect_old now max_age_hours [] = []"
| "collect_old now max_age_hours ((sid, session) # rest) =
     (if removable now max_age_hours session then sid # collect_old now max_age_hours rest
      else collect_old now max_age_hours rest)"

definition del_item :: "cli_session_manager \<Rightarrow> string \<Rightarrow> error + cli_session_manager" where
  "del_item sessions sid =
     (case map_of sessions sid of
        None \<Rightarrow> Inl KeyError
      | Some session \<Rightarrow> Inr (AList.delete sid sessions))"

fun remove_all :: "cli_session_manager \<Rightarrow> string list \<Rightarrow> error + cli_session_manager" where
  "remove_all sessions [] = Inr sessions"
| "remove_all sessions (sid # rest) =
     (case del_item sessions sid of
        Inl e \<Rightarrow> Inl e
      | Inr sessions' \<Rightarrow> remove_all sessions' rest)"

definition cleanup_old_sessions ::
  "cli_session_manager \<Rightarrow> int \<Rightarrow> int \<Rightarrow> error + (int \<times> cli_session_manager)" where
  "cleanup_old_sessions sessions now max_age_hours =
     (let to_remove = collect_old now max_age_hours sessions
      in (case remove_all sessions to_remove of
            Inl e \<Rightarrow> Inl e
          | Inr sessions' \<Rightarrow> Inr (int (length to_remove), sessions')))"

definition terminal :: "string \<Rightarrow> bool" where
  "terminal st = (st = ''completed'' \<or> st = ''cancelled'' \<or> st = ''failed'')"

section \<open>Conversation session store\<close>

text \<open>
  The store is \<open>src/session_manager.py\<close>, which is not among the sources: only its unit
  tests are (\<open>tests/unit/test_session_manager.py\<close>). Its operations are modelled from
  the specification, with the names and the constructor arguments that the tests use.
  Times are counted in microseconds, and every operation takes the time of the call.
\<close>

record message =
  role :: string
  content :: string

record session =
  session_id :: string
  messages :: "message list"
  created_at :: int
  last_accessed :: int
  expires_at :: int

record session_manager =
  default_ttl_hours :: int
  cleanup_interval_minutes :: int
  sessions :: "(string \<times> session) list"

text \<open>
  Modelled from the spec: the constructor of the missing \<open>SessionManager\<close>; the TTL
  defaults to 1 hour and the sweep interval to 5 minutes, and the store starts empty.
\<close>

definition SessionManager :: "int \<Rightarrow> int \<Rightarrow> session_manager" where
  "SessionManager ttl_hours interval_minutes =
     \<lparr>default_ttl_hours = ttl_hours, cleanup_interval_minutes = interval_minutes, sessions = []\<rparr>"

text \<open>Modelled from the spec: the configured TTL of the missing store, in microseconds.\<close>

definition ttl :: "session_manager \<Rightarrow> int" where
  "ttl self = default_ttl_hours self * 3600000000"

text \<open>
  Modelled from the spec: the missing constructor of a conversation session, created
  empty at the time of the first reference to its key, expiring one TTL later.
\<close>

definition Session :: "string \<Rightarrow> int \<Rightarrow> int \<Rightarrow> session" where
  "Session sid life now =
     \<lparr>session_id = sid, messages = [], created_at = now, last_accessed = now,
      expires_at = now + life\<rparr>"

text \<open>
  Modelled from the spec: the missing \<open>Session.touch\<close>; every access slides the
  expiration forward by the full TTL from the access time.
\<close>

definition touch :: "int \<Rightarrow> int \<Rightarrow> session \<Rightarrow> session" where
  "touch life now s = s\<lparr>last_accessed := now, expires_at := now + life\<rparr>"

text \<open>
  Modelled from the spec: the missing \<open>Session.is_expired\<close>; a session observed past
  its expiration time is logically absent.
\<close>

definition is_expired :: "int \<Rightarrow> session \<Rightarrow> bool" where
  "is_expired now s = (now > expires_at s)"

text \<open>
  Modelled from the spec: the missing \<open>Session.add_messages\<close>; messages are appended in
  arrival order, and the append touches the session.
\<close>

definition add_messages :: "int \<Rightarrow> int \<Rightarrow> session \<Rightarrow> message list \<Rightarrow> session" where
  "add_messages life now s msgs = touch life now (s\<lparr>messages := messages s @ msgs\<rparr>)"

text \<open>
  Modelled from the spec: the missing \<open>get_or_create_session\<close> (GetOrCreate). An absent
  or expired key gets a new, empty session; a present, unexpired one is touched.
\<close>

definition get_or_create_session ::
  "session_manager \<Rightarrow> string \<Rightarrow> int \<Rightarrow> session \<times> session_manager" where
  "get_or_create_session self sid now =
     (let s' =
        (case map_of (sessions self) sid of
           None \<Rightarrow> Session sid (ttl self) now
         | Some s \<Rightarrow> if is_expired now s then Session sid (ttl self) now
                     else touch (ttl self) now s)
      in (s', self\<lparr>sessions := AList.update sid s' (sessions self)\<rparr>))"

text \<open>
  Modelled from the spec: the missing \<open>get_session\<close> of the store (Get). It does not
  create; an expired session is deleted by the read and reported absent; an unexpired
  one is touched and returned.
\<close>

definition get_session_sm ::
  "session_manager \<Rightarrow> string \<Rightarrow> int \<Rightarrow> session option \<times> session_manager" where
  "get_session_sm self sid now =
     (case map_of (sessions self) sid of
        None \<Rightarrow> (None, self)
      | Some s \<Rightarrow>
          if is_expired now s then (None, self\<lparr>sessions := AList.delete sid (sessions self)\<rparr>)
          else (let s' = touch (ttl self) now s
                in (Some s', self\<lparr>sessions := AList.update sid s' (sessions self)\<rparr>)))"

text \<open>Modelled from the spec: the missing \<open>delete_session\<close> (Delete).\<close>

definition delete_session :: "session_manager \<Rightarrow> string \<Rightarrow> bool \<times> session_manager" where
  "delete_session self sid =
     (case map_of (sessions self) sid of
        None \<Rightarrow> (False, self)
      | Some s \<Rightarrow> (True, self\<lparr>sessions := AList.delete sid (sessions self)\<rparr>))"

text \<open>
  Modelled from the spec: the missing \<open>process_messages\<close> (ProcessMessages). Without a
  key it returns the new messages and no key, and touches nothing; with a key it resolves
  the session, appends, and returns the whole accumulated sequence with the key.
\<close>

definition process_messages ::
  "session_manager \<Rightarrow> message list \<Rightarrow> string option \<Rightarrow> int
   \<Rightarrow> (message list \<times> string option) \<times> session_manager" where
  "process_messages self msgs key now =
     (case key of
        None \<Rightarrow> ((msgs, None), self)
      | Some sid \<Rightarrow>
          (let (s, self1) = get_or_create_session self sid now;
               s' = add_messages (ttl self1) now s msgs
           in ((messages s', Some sid),
               self1\<lparr>sessions := AList.update sid s' (sessions self1)\<rparr>)))"

text \<open>
  Modelled from the spec: the missing \<open>add_assistant_response\<close> (AddAssistantResponse).
  Without a key it does nothing; with a key it appends the one message to the resolved
  session.
\<close>

definition add_assistant_response ::
  "session_manager \<Rightarrow> string option \<Rightarrow> message \<Rightarrow> int \<Rightarrow> session_manager" where
  "add_assistant_response self key msg now =
     (case key of
        None \<Rightarrow> self
      | Some sid \<Rightarrow>
          (let (s, self1) = get_or_create_session self sid now;
               s' = add_messages (ttl self1) now s [msg]
           in self1\<lparr>sessions := AList.update sid s' (sessions self1)\<rparr>))"

text \<open>
  Modelled from the spec: the missing \<open>get_stats\<close> of the store (Stats), with the keys
  that the tests read: the number of active sessions, the number of expired sessions
  that are not yet purged, and the total message count across the active sessions.
\<close>

record stats =
  active_sessions :: int
  expired_sessions :: int
  total_messages :: int

definition get_stats_sm :: "session_manager \<Rightarrow> int \<Rightarrow> stats" where
  "get_stats_sm self now =
     \<lparr>active_sessions = int (length (filter (\<lambda>(sid, s). \<not> is_expired now s) (sessions self))),
      expired_sessions = int (length (filter (\<lambda>(sid, s). is_expired now s) (sessions self))),
      total_messages =
        (\<Sum>(sid, s) \<leftarrow> filter (\<lambda>(sid, s). \<not> is_expired now s) (sessions self).
           int (length (messages s)))\<rparr>"

text \<open>The message count of the sessions that satisfy a condition.\<close>

definition message_count :: "(session \<Rightarrow> bool) \<Rightarrow> session_manager \<Rightarrow> int" where
  "message_count P self =
     (\<Sum>(sid, s) \<leftarrow> filter (\<lambda>(sid, s). P s) (sessions self). int (length (messages s)))"

section \<open>Example states\<close>

text \<open>
  A registry with a completed session started at time 0, a running session started at
  time 0, and a failed session started 24 hours later.
\<close>

definition example_completed :: cli_session where
  "example_completed =
     \<lparr>cli_session_id = ''a'', prompt = ''long task'', started_at = 0, model = None,
      status = ''completed'', cancellation_token = Some False, task = None\<rparr>"

definition example_running :: cli_session where
  "example_running =
     \<lparr>cli_session_id = ''b'', prompt = ''other task'', started_at = 0, model = None,
      status = ''running'', cancellation_token = Some False, task = None\<rparr>"

definition example_failed :: cli_session where
  "example_failed =
     \<lparr>cli_session_id = ''c'', prompt = ''late task'', started_at = 86400000000, model = None,
      status = ''failed'', cancellation_token = Some False, task = None\<rparr>"

definition example_registry :: cli_session_manager where
  "example_registry = [(''a'', example_completed), (''b'', example_running), (''c'', example_failed)]"

text \<open>
  The store of the specification's scenario, with a TTL of 1 hour: key \<open>k\<close> is created at
  time 0 with one message and receives a second message 30 minutes later.
\<close>

definition hello :: message where
  "hello = \<lparr>role = ''user'', content = ''Hello''\<rparr>"

definition how_are_you :: message where
  "how_are_you = \<lparr>role = ''user'', content = ''How are you?''\<rparr>"

definition example_session :: session where
  "example_session =
     \<lparr>session_id = ''k'', messages = [hello, how_are_you], created_at = 0,
      last_accessed = 1800000000, expires_at = 5400000000\<rparr>"

definition example_store :: session_manager where
  "example_store =
     snd (process_messages
            (snd (process_messages (SessionManager 1 5) [hello] (Some ''k'') 0))
            [how_are_you] (Some ''k'') 1800000000)"

section \<open>Properties\<close>

subsection \<open>The request limiter\<close>

lemma run_call_max: "max_concurrent (run_call fmt s c) = max_concurrent s"
  by (cases c) (auto simp: acquire_def release_def admit_def Let_def split: sum.splits prod.splits)

lemma run_call_nonneg: "0 \<le> active_requests s \<Longrightarrow> 0 \<le> active_requests (run_call fmt s c)"
  by (cases c) (auto simp: acquire_def release_def admit_def Let_def split: sum.splits prod.splits)

lemma run_call_le:
  "0 \<le> max_concurrent s \<Longrightarrow> active_requests s \<le> max_concurrent s \<Longrightarrow> \<not> is_Acquire c \<Longrightarrow>
   active_requests (run_call fmt s c) \<le> max_concurrent s"
  by (cases c)
     (auto simp: acquire_def release_def admit_def can_accept_request_def Let_def
           split: sum.splits prod.splits if_splits)

lemma run_calls_max: "max_concurrent (run_calls fmt s cs) = max_concurrent s"
  by (induction cs arbitrary: s) (simp_all add: run_call_max)

lemma run_calls_nonneg: "0 \<le> active_requests s \<Longrightarrow> 0 \<le> active_requests (run_calls fmt s cs)"
  by (induction cs arbitrary: s) (simp_all add: run_call_nonneg)

lemma run_calls_le:
  "0 \<le> max_concurrent s \<Longrightarrow> active_requests s \<le> max_concurrent s \<Longrightarrow>
   \<forall>c \<in> set cs. \<not> is_Acquire c \<Longrightarrow>
   active_requests (run_calls fmt s cs) \<le> max_concurrent s"
proof (induction cs arbitrary: s)
  case Nil
  then show ?case by simp
next
  case (Cons c cs)
  have "active_requests (run_call fmt s c) \<le> max_concurrent (run_call fmt s c)"
    using Cons.prems by (simp add: run_call_le run_call_max)
  moreover have "0 \<le> max_concurrent (run_call fmt s c)"
    using Cons.prems by (simp add: run_call_max)
  ultimately have "active_requests (run_calls fmt (run_call fmt s c) cs)
                   \<le> max_concurrent (run_call fmt s c)"
    using Cons.IH Cons.prems by simp
  then show ?case by (simp add: run_call_max)
qed

text \<open>
  C1 as stated fails: \<open>acquire\<close> increments without looking at the maximum, so four
  calls on a limiter with maximum 3 leave 4 active requests.
\<close>

theorem acquire_exceeds_maximum_counterexample:
  "active_requests (run_calls example_fmt (RequestLimiter 3 90)
        [Acquire (Inr 50), Acquire (Inr 50), Acquire (Inr 50), Acquire (Inr 50)]) = 4
   \<and> max_concurrent (run_calls example_fmt (RequestLimiter 3 90)
        [Acquire (Inr 50), Acquire (Inr 50), Acquire (Inr 50), Acquire (Inr 50)]) = 3"
  by (simp add: RequestLimiter_def acquire_def)

text \<open>
  C1, amended: after every sequence of calls on a new limiter the active count is at
  least 0; when the maximum is at least 0 and every \<open>acquire\<close> of the sequence is the one
  that the middleware's admission makes after \<open>can_accept_request\<close> allowed it, the active
  count is also at most the maximum.
\<close>

theorem active_requests_bounds:
  "0 \<le> active_requests (run_calls fmt (RequestLimiter M T) cs) \<and>
   (0 \<le> M \<and> (\<forall>c \<in> set cs. \<not> is_Acquire c) \<longrightarrow>
      active_requests (run_calls fmt (RequestLimiter M T) cs) \<le> M)"
proof -
  have "0 \<le> active_requests (run_calls fmt (RequestLimiter M T) cs)"
    by (rule run_calls_nonneg) (simp add: RequestLimiter_def)
  moreover have "active_requests (run_calls fmt (RequestLimiter M T) cs) \<le> M"
    if "0 \<le> M" "\<forall>c \<in> set cs. \<not> is_Acquire c"
    using run_calls_le [of "RequestLimiter M T" cs fmt] that by (simp add: RequestLimiter_def)
  ultimately show ?thesis by blast
qed

theorem active_requests_bounds_witness:
  "(0::int) \<le> 3 \<and>
   \<not> is_Acquire (Admit (Inr 50) (Inr 50)) \<and> \<not> is_Acquire (Release (Inr 50)) \<and>
   active_requests (run_calls example_fmt (RequestLimiter 3 90)
      [Admit (Inr 50) (Inr 50), Admit (Inr 50) (Inr 50), Admit (Inr 50) (Inr 50)]) = 3 \<and>
   active_requests (run_calls example_fmt (RequestLimiter 3 90)
      [Admit (Inr 50) (Inr 50), Admit (Inr 50) (Inr 50), Admit (Inr 50) (Inr 50),
       Admit (Inr 50) (Inr 50), Release (Inr 50), Release (Inr 50)]) = 1 \<and>
   active_requests (run_calls example_fmt (RequestLimiter 3 90)
      [Admit (Inr 50) (Inr 50), Admit (Inr 50) (Inr 50), Admit (Inr 50) (Inr 50),
       Admit (Inr 50) (Inr 50), Release (Inr 50), Release (Inr 50)]) \<le> 3"
  using active_requests_bounds [of example_fmt 3 90
      "[Admit (Inr 50) (Inr 50), Admit (Inr 50) (Inr 50), Admit (Inr 50) (Inr 50),
        Admit (Inr 50) (Inr 50), Release (Inr 50), Release (Inr 50)]"]
  by (simp add: RequestLimiter_def admit_def can_accept_request_def acquire_def release_def)

text \<open>
  C2: when the active count has reached the maximum, \<open>can_accept_request\<close> denies with
  the concurrency reason, which names both counts, whatever the memory read gives (a
  sample below or above the threshold, or a failure); for maximum 3 and 3 active the
  reason is exactly \<open>Max concurrent requests reached (3/3)\<close>. Below the maximum and with
  memory below the threshold the answer is \<open>(True, None)\<close>.
\<close>

theorem can_accept_request_decision:
  "(max_concurrent self \<le> active_requests self \<longrightarrow>
      can_accept_request fmt self vm =
        Inr (False, Some (''Max concurrent requests reached ('' @ str_int (active_requests self)
                          @ ''/'' @ str_int (max_concurrent self) @ '')'')))
   \<and> (max_concurrent self = 3 \<and> active_requests self = 3 \<longrightarrow>
      can_accept_request fmt self vm = Inr (False, Some ''Max concurrent requests reached (3/3)''))
   \<and> (active_requests self < max_concurrent self \<and> pct < memory_threshold self \<longrightarrow>
      can_accept_request fmt self (Inr pct) = Inr (True, None))"
  by (simp add: can_accept_request_def str_int_def digits.simps digit_char_def)

theorem can_accept_request_decision_witness:
  "max_concurrent ((RequestLimiter 3 90)\<lparr>active_requests := 3\<rparr>) = 3
   \<and> active_requests ((RequestLimiter 3 90)\<lparr>active_requests := 3\<rparr>) = 3
   \<and> memory_threshold ((RequestLimiter 3 90)\<lparr>active_requests := 3\<rparr>) \<le> 95
   \<and> can_accept_request example_fmt ((RequestLimiter 3 90)\<lparr>active_requests := 3\<rparr>) (Inr 95)
       = Inr (False, Some ''Max concurrent requests reached (3/3)'')
   \<and> active_requests ((RequestLimiter 3 90)\<lparr>active_requests := 2\<rparr>)
       < max_concurrent ((RequestLimiter 3 90)\<lparr>active_requests := 2\<rparr>)
   \<and> 50 < memory_threshold ((RequestLimiter 3 90)\<lparr>active_requests := 2\<rparr>)
   \<and> can_accept_request example_fmt ((RequestLimiter 3 90)\<lparr>active_requests := 2\<rparr>) (Inr 50)
       = Inr (True, None)"
  using can_accept_request_decision
      [of "(RequestLimiter 3 90)\<lparr>active_requests := 3\<rparr>" example_fmt "Inr 95" 50]
    can_accept_request_decision
      [of "(RequestLimiter 3 90)\<lparr>active_requests := 2\<rparr>" example_fmt "Inr 95" 50]
  by (simp add: RequestLimiter_def str_int_def digits.simps digit_char_def)

text \<open>
  C3 as stated fails: with a free slot, a failing memory read leaves
  \<open>can_accept_request\<close> as the failure itself, not as a denial.
\<close>

theorem memory_failure_propagates_counterexample:
  "can_accept_request example_fmt (RequestLimiter 3 90) (Inl MemoryReadError)
     = Inl MemoryReadError"
  by (simp add: can_accept_request_def RequestLimiter_def)

text \<open>
  C3, amended: \<open>can_accept_request\<close> never allows a request when the memory read fails.
  Below the maximum the failure propagates to the caller; at or above the maximum the
  concurrency denial is returned, and memory is not read.
\<close>

theorem can_accept_request_memory_failure:
  "can_accept_request fmt self (Inl e) \<noteq> Inr (True, None)
   \<and> (active_requests self < max_concurrent self \<longrightarrow>
        can_accept_request fmt self (Inl e) = Inl e)
   \<and> (max_concurrent self \<le> active_requests self \<longrightarrow>
        can_accept_request fmt self (Inl e) =
          Inr (False, Some (''Max concurrent requests reached (''
                            @ str_int (active_requests self) @ ''/''
                            @ str_int (max_concurrent self) @ '')'')))"
  by (simp add: can_accept_request_def)

theorem can_accept_request_memory_failure_witness:
  "active_requests (RequestLimiter 3 90) < max_concurrent (RequestLimiter 3 90)
   \<and> can_accept_request example_fmt (RequestLimiter 3 90) (Inl MemoryReadError)
       = Inl MemoryReadError
   \<and> max_concurrent ((RequestLimiter 3 90)\<lparr>active_requests := 3\<rparr>)
       \<le> active_requests ((RequestLimiter 3 90)\<lparr>active_requests := 3\<rparr>)
   \<and> can_accept_request example_fmt ((RequestLimiter 3 90)\<lparr>active_requests := 3\<rparr>)
        (Inl MemoryReadError)
       = Inr (False, Some ''Max concurrent requests reached (3/3)'')"
  using can_accept_request_memory_failure [of example_fmt "RequestLimiter 3 90" MemoryReadError]
    can_accept_request_memory_failure
      [of example_fmt "(RequestLimiter 3 90)\<lparr>active_requests := 3\<rparr>" MemoryReadError]
  by (simp add: RequestLimiter_def str_int_def digits.simps digit_char_def)

subsection \<open>Rounding to a double\<close>












lemma powi2_pos [simp]: "0 < (2::real) powi e"
  by (simp add: zero_less_power_int)

















subsection \<open>The registry\<close>

lemma collect_old_eq:
  "collect_old now h m = map fst (filter (\<lambda>(sid, s). removable now h s) m)"
  by (induction m) auto

lemma remove_all_filter:
  "distinct ks \<Longrightarrow> set ks \<subseteq> fst ` set m \<Longrightarrow>
   remove_all m ks = Inr (filter (\<lambda>(sid, s). sid \<notin> set ks) m)"
proof (induction ks arbitrary: m)
  case Nil
  then show ?case by simp
next
  case (Cons k ks)
  from Cons.prems have "k \<in> fst ` set m" by simp
  then obtain s where s: "map_of m k = Some s"
    by (metis map_of_eq_None_iff not_Some_eq)
  have "set (map fst (AList.delete k m)) = set (map fst m) - {k}"
    by (simp only: AList.delete_keys set_removeAll)
  then have sub: "set ks \<subseteq> fst ` set (AList.delete k m)"
    using Cons.prems by auto
  have "remove_all m (k # ks) = remove_all (AList.delete k m) ks"
    using s by (simp add: del_item_def)
  also have "\<dots> = Inr (filter (\<lambda>(sid, s). sid \<notin> set ks) (AList.delete k m))"
    using Cons.IH [OF _ sub] Cons.prems by simp
  also have "filter (\<lambda>(sid, s). sid \<notin> set ks) (AList.delete k m)
             = filter (\<lambda>(sid, s). sid \<notin> set (k # ks)) m"
    by (auto simp: AList.delete_eq intro: filter_cong)
  finally show ?case .
qed

lemma filter_collected:
  assumes "distinct (map fst m)"
  shows "filter (\<lambda>(sid, s). sid \<notin> set (collect_old now h m)) m
         = filter (\<lambda>(sid, s). \<not> removable now h s) m"
proof (rule filter_cong [OF refl])
  fix x assume x: "x \<in> set m"
  obtain sid s where xs: "x = (sid, s)" by (cases x)
  have "sid \<in> set (collect_old now h m) \<longleftrightarrow> removable now h s"
  proof
    assume "sid \<in> set (collect_old now h m)"
    then obtain s' where s': "(sid, s') \<in> set m" "removable now h s'"
      by (auto simp: collect_old_eq)
    with assms x xs have "s' = s" by (metis eq_key_imp_eq_value)
    with s' show "removable now h s" by simp
  next
    assume "removable now h s"
    with x xs show "sid \<in> set (collect_old now h m)"
      by (force simp: collect_old_eq)
  qed
  then show "(case x of (sid, s) \<Rightarrow> sid \<notin> set (collect_old now h m))
             = (case x of (sid, s) \<Rightarrow> \<not> removable now h s)"
    by (simp add: xs)
qed

lemma cleanup_old_sessions_filter:
  assumes "distinct (map fst m)"
  shows "cleanup_old_sessions m now h =
           Inr (int (length (filter (\<lambda>(sid, s). removable now h s) m)),
                filter (\<lambda>(sid, s). \<not> removable now h s) m)"
proof -
  have d: "distinct (collect_old now h m)"
    using assms by (simp add: collect_old_eq distinct_map_filter)
  have sub: "set (collect_old now h m) \<subseteq> fst ` set m"
    by (auto simp: collect_old_eq)
  show ?thesis
    by (simp add: cleanup_old_sessions_def remove_all_filter [OF d sub]
        filter_collected [OF assms]) (simp add: collect_old_eq)
qed


lemma map_of_filter_keep:
  "distinct (map fst m) \<Longrightarrow> map_of m k = Some v \<Longrightarrow>
   map_of (filter (\<lambda>(sid, s). P s) m) k = (if P v then Some v else None)"
proof (induction m)
  case Nil
  then show ?case by simp
next
  case (Cons a m)
  obtain k' v' where a: "a = (k', v')" by (cases a)
  show ?case
  proof (cases "k' = k")
    case True
    with Cons.prems a have v: "v' = v" by simp
    from Cons.prems a True have "k \<notin> fst ` set m" by auto
    then have "map_of (filter (\<lambda>(sid, s). P s) m) k = None"
      by (auto simp: map_of_eq_None_iff image_iff)
    with a True v show ?thesis by simp
  next
    case False
    with Cons a show ?thesis by simp
  qed
qed

lemma cancel_session_other:
  "map_of m sid = Some s \<Longrightarrow> terminal (status s) \<Longrightarrow>
   map_of (snd (cancel_session m other)) sid = Some s"
  by (cases "other = sid")
     (auto simp: cancel_session_def terminal_def AList.update_conv' Let_def split: option.splits)

text \<open>
  C4 as stated fails: \<open>complete_session\<close> assigns the status it is given without looking
  at the current one, so a completed session becomes failed on a second call.
\<close>

theorem complete_session_overwrites_terminal_counterexample:
  "map_option status
     (get_session
        (complete_session (snd (create_session [] ''a'' 0 True True ''long task'' None None))
           ''a'' ''completed'') ''a'') = Some ''completed''
   \<and> map_option status
     (get_session
        (complete_session
           (complete_session (snd (create_session [] ''a'' 0 True True ''long task'' None None))
              ''a'' ''completed'')
           ''a'' ''failed'') ''a'') = Some ''failed''"
  by (simp add: create_session_def CLISession_def complete_session_def get_session_def Let_def)

text \<open>
  C4, amended: the status of a session that is completed, cancelled or failed is left
  as it is by \<open>cancel_session\<close> on any identifier, by \<open>complete_session\<close> and
  \<open>create_session\<close> on another identifier, and by \<open>cleanup_old_sessions\<close>, which either keeps
  the session unchanged or removes it; \<open>complete_session\<close> on the session's own identifier
  replaces the status by the one it is given, the last call winning.
\<close>

theorem terminal_status_frame:
  assumes "get_session m sid = Some s" and "terminal (status s)" and "distinct (map fst m)"
  shows "get_session (snd (cancel_session m other)) sid = Some s
       \<and> (other \<noteq> sid \<longrightarrow> get_session (complete_session m other st) sid = Some s)
       \<and> (other \<noteq> sid \<longrightarrow>
            get_session (snd (create_session m other now ev lp p mdl tsk)) sid = Some s)
       \<and> (case cleanup_old_sessions m now h of
            Inl e \<Rightarrow> False
          | Inr (n, m') \<Rightarrow> get_session m' sid = Some s \<or> get_session m' sid = None)
       \<and> get_session (complete_session m sid st) sid = Some (s\<lparr>status := st\<rparr>)"
proof -
  from assms have ms: "map_of m sid = Some s" by (simp add: get_session_def)
  have 1: "get_session (snd (cancel_session m other)) sid = Some s"
    using cancel_session_other [OF ms assms(2)] by (simp add: get_session_def)
  have 2: "other \<noteq> sid \<longrightarrow> get_session (complete_session m other st) sid = Some s"
    using ms by (simp add: get_session_def complete_session_def AList.update_conv' split: option.splits)
  have 3: "other \<noteq> sid \<longrightarrow>
            get_session (snd (create_session m other now ev lp p mdl tsk)) sid = Some s"
    using ms by (simp add: get_session_def create_session_def AList.update_conv' Let_def)
  have 4: "(case cleanup_old_sessions m now h of
            Inl e \<Rightarrow> False
          | Inr (n, m') \<Rightarrow> get_session m' sid = Some s \<or> get_session m' sid = None)"
    using map_of_filter_keep [OF assms(3) ms, of "\<lambda>s. \<not> removable now h s"]
    by (simp add: cleanup_old_sessions_filter [OF assms(3)] get_session_def)
  have 5: "get_session (complete_session m sid st) sid = Some (s\<lparr>status := st\<rparr>)"
    using ms by (simp add: get_session_def complete_session_def AList.update_conv')
  from 1 2 3 4 5 show ?thesis by blast
qed

theorem terminal_status_frame_witness:
  "get_session example_registry ''a'' = Some example_completed
   \<and> terminal (status example_completed)
   \<and> distinct (map fst example_registry)
   \<and> get_session (snd (cancel_session example_registry ''a'')) ''a'' = Some example_completed
   \<and> get_session (snd (cancel_session example_registry ''b'')) ''a'' = Some example_completed
   \<and> get_session (complete_session example_registry ''b'' ''failed'') ''a''
       = Some example_completed
   \<and> get_session (complete_session example_registry ''a'' ''failed'') ''a''
       = Some (example_completed\<lparr>status := ''failed''\<rparr>)"
  using terminal_status_frame [of example_registry "''a''" example_completed "''a''"]
    terminal_status_frame [of example_registry "''a''" example_completed "''b''" "''failed''"]
  by (simp add: example_registry_def example_completed_def get_session_def terminal_def)

text \<open>
  C5: for an unknown identifier, and for a session whose status is completed, cancelled
  or failed, \<open>cancel_session\<close> returns \<open>False\<close> and leaves the registry, and with it the
  session's status, unchanged. The function has no error result.
\<close>

theorem cancel_session_rejects:
  assumes "get_session m sid = None \<or> (\<exists>s. get_session m sid = Some s \<and> terminal (status s))"
  shows "cancel_session m sid = (False, m)"
  using assms by (auto simp: get_session_def cancel_session_def terminal_def)

theorem cancel_session_rejects_witness:
  "get_session example_registry ''zz'' = None
   \<and> cancel_session example_registry ''zz'' = (False, example_registry)
   \<and> get_session example_registry ''a'' = Some example_completed
   \<and> terminal (status example_completed)
   \<and> cancel_session example_registry ''a'' = (False, example_registry)"
  using cancel_session_rejects [of example_registry "''zz''"]
    cancel_session_rejects [of example_registry "''a''"]
  by (simp add: example_registry_def example_completed_def get_session_def terminal_def)







subsection \<open>The conversation session store\<close>

lemma sum_list_split:
  "(\<Sum>(sid, s) \<leftarrow> xs. (f s :: int))
     = (\<Sum>(sid, s) \<leftarrow> filter (\<lambda>(sid, s). \<not> P s) xs. f s)
       + (\<Sum>(sid, s) \<leftarrow> filter (\<lambda>(sid, s). P s) xs. f s)"
  by (induction xs) auto

lemma length_split:
  "length xs = length (filter (\<lambda>(sid, s). \<not> P s) xs) + length (filter (\<lambda>(sid, s). P s) xs)"
  by (induction xs) auto

lemma get_or_create_session_expires:
  "expires_at (fst (get_or_create_session self sid t)) = t + ttl self"
  by (simp add: get_or_create_session_def Session_def touch_def Let_def split: option.splits)

lemma get_or_create_session_stored:
  "map_of (sessions (snd (get_or_create_session self sid t))) sid
     = Some (fst (get_or_create_session self sid t))"
  by (simp add: get_or_create_session_def Let_def AList.update_conv')

lemma get_or_create_session_ttl:
  "ttl (snd (get_or_create_session self sid t)) = ttl self"
  by (simp add: get_or_create_session_def Let_def ttl_def)

text \<open>
  C7: a touch at time \<open>t\<close> sets the expiration to exactly \<open>t\<close> plus the configured TTL
  and the last access to \<open>t\<close>, for every session and every \<open>t\<close>; so does every operation
  that touches or creates a session at time \<open>t\<close>: \<open>get_or_create_session\<close>,
  \<open>process_messages\<close> and \<open>add_assistant_response\<close> with a key, and \<open>get_session\<close> on an
  unexpired session.
\<close>

theorem touch_slides_expiration:
  "expires_at (touch (ttl self) t s) = t + ttl self
   \<and> last_accessed (touch (ttl self) t s) = t
   \<and> expires_at (fst (get_or_create_session self sid t)) = t + ttl self
   \<and> map_option expires_at (map_of (sessions (snd (get_or_create_session self sid t))) sid)
       = Some (t + ttl self)
   \<and> map_option expires_at (map_of (sessions (snd (process_messages self msgs (Some sid) t))) sid)
       = Some (t + ttl self)
   \<and> map_option expires_at (map_of (sessions (add_assistant_response self (Some sid) msg t)) sid)
       = Some (t + ttl self)
   \<and> (map_of (sessions self) sid = Some s \<and> \<not> is_expired t s \<longrightarrow>
        map_option expires_at (fst (get_session_sm self sid t)) = Some (t + ttl self)
        \<and> map_option expires_at (map_of (sessions (snd (get_session_sm self sid t))) sid)
            = Some (t + ttl self))"
proof -
  have 1: "expires_at (touch (ttl self) t s) = t + ttl self"
    and 2: "last_accessed (touch (ttl self) t s) = t"
    by (simp_all add: touch_def)
  have 3: "map_option expires_at (map_of (sessions (snd (get_or_create_session self sid t))) sid)
       = Some (t + ttl self)"
    by (simp add: get_or_create_session_stored get_or_create_session_expires)
  have 4: "map_option expires_at
             (map_of (sessions (snd (process_messages self msgs (Some sid) t))) sid)
       = Some (t + ttl self)"
    by (simp add: process_messages_def add_messages_def touch_def AList.update_conv'
        get_or_create_session_ttl case_prod_beta)
  have 5: "map_option expires_at
             (map_of (sessions (add_assistant_response self (Some sid) msg t)) sid)
       = Some (t + ttl self)"
    by (simp add: add_assistant_response_def add_messages_def touch_def AList.update_conv'
        get_or_create_session_ttl case_prod_beta)
  have 6: "map_of (sessions self) sid = Some s \<and> \<not> is_expired t s \<longrightarrow>
        map_option expires_at (fst (get_session_sm self sid t)) = Some (t + ttl self)
        \<and> map_option expires_at (map_of (sessions (snd (get_session_sm self sid t))) sid)
            = Some (t + ttl self)"
    by (simp add: get_session_sm_def touch_def Let_def AList.update_conv')
  from 1 2 3 4 5 6 get_or_create_session_expires [of self sid t] show ?thesis by blast
qed

theorem touch_slides_expiration_witness:
  "map_of (sessions example_store) ''k'' = Some example_session
   \<and> \<not> is_expired 3600000000 example_session
   \<and> ttl example_store = 3600000000
   \<and> map_option expires_at (fst (get_session_sm example_store ''k'' 3600000000))
       = Some 7200000000"
  using touch_slides_expiration [of example_store 3600000000 example_session "''k''"]
  by (simp add: example_store_def example_session_def process_messages_def
      get_or_create_session_def add_messages_def touch_def Session_def SessionManager_def
      ttl_def is_expired_def Let_def)

text \<open>
  C8: without a key, \<open>process_messages\<close> returns the input messages and no key and
  leaves the store unchanged, and \<open>add_assistant_response\<close> leaves the store unchanged.
\<close>

theorem stateless_mode_frame:
  "process_messages self msgs None now = ((msgs, None), self)
   \<and> add_assistant_response self None msg now = self"
  by (simp add: process_messages_def add_assistant_response_def)

text \<open>
  C9: for a key whose stored session has passed its expiration time, \<open>get_session\<close>
  returns absent and deletes the entry: the key is no longer in the store afterwards.
\<close>

theorem get_session_expired:
  assumes "map_of (sessions self) sid = Some s" and "is_expired now s"
  shows "fst (get_session_sm self sid now) = None
       \<and> sid \<notin> fst ` set (sessions (snd (get_session_sm self sid now)))
       \<and> map_of (sessions (snd (get_session_sm self sid now))) sid = None"
  using assms
  by (simp add: get_session_sm_def AList.delete_notin_dom AList.delete_conv')

theorem get_session_expired_witness:
  "map_of (sessions example_store) ''k'' = Some example_session
   \<and> is_expired 5460000000 example_session
   \<and> fst (get_session_sm example_store ''k'' 5460000000) = None
   \<and> sessions (snd (get_session_sm example_store ''k'' 5460000000)) = []"
  using get_session_expired [of example_store "''k''" example_session 5460000000]
  by (simp add: example_store_def example_session_def process_messages_def
      get_or_create_session_def get_session_sm_def add_messages_def touch_def Session_def
      SessionManager_def ttl_def is_expired_def Let_def)

text \<open>
  C10: the total message count reported by the statistics is the sum of the message
  counts of the active (unexpired) sessions only: it is the sum over all stored sessions
  less the messages held by the expired sessions that are not yet purged.
\<close>

theorem stats_total_active_only:
  "total_messages (get_stats_sm self now) = message_count (\<lambda>s. \<not> is_expired now s) self
   \<and> total_messages (get_stats_sm self now)
       = (\<Sum>(sid, s) \<leftarrow> sessions self. int (length (messages s)))
         - message_count (is_expired now) self
   \<and> active_sessions (get_stats_sm self now) + expired_sessions (get_stats_sm self now)
       = int (length (sessions self))"
  using sum_list_split [of "\<lambda>s. int (length (messages s))" "sessions self" "is_expired now"]
    length_split [of "sessions self" "is_expired now"]
  by (simp add: get_stats_sm_def message_count_def)

end
